theory Spec2Isabelle
  imports Complex_Main
begin

section \<open>Python values read from the wire\<close>

text \<open>
  \<^verbatim>\<open>r.json()\<close> yields an untyped Python value: \<^verbatim>\<open>None\<close>, a bool, an int, a
  float, a str, a list or a dict with string keys. The pipelines store such values in the
  result bundles without checking them against the \<^verbatim>\<open>Optional[str]\<close> annotations, so the
  fields of the bundles hold a \<open>pyval\<close>; \<open>PNone\<close> is Python's \<^verbatim>\<open>None\<close>.
  A dict is an association list read with \<open>map_of\<close>. A float is the real number it
  denotes; the code only tests it for truth, so the non-finite floats behave as any
  non-zero one.
\<close>

datatype pyval =
    PNone
  | PBool bool
  | PInt int
  | PFloat real
  | PStr string
  | PList "pyval list"
  | PDict "(string \<times> pyval) list"

text \<open>
  A raised object: its class name and what \<^verbatim>\<open>str(e)\<close> returns. \<open>Exception\<close> is an
  instance of Python's \<^verbatim>\<open>Exception\<close>, the ones \<^verbatim>\<open>except Exception\<close> catches;
  \<open>BaseException\<close> is an instance of \<^verbatim>\<open>BaseException\<close> that is not one of
  \<^verbatim>\<open>Exception\<close>: \<^verbatim>\<open>asyncio.CancelledError\<close>, \<^verbatim>\<open>KeyboardInterrupt\<close>,
  \<^verbatim>\<open>SystemExit\<close>.
\<close>

datatype exception =
    is_Exception: Exception (exc_class: string) (exc_str: string)
  | BaseException (exc_class: string) (exc_str: string)

definition quoted :: "string \<Rightarrow> string" where
  "quoted k = CHR 0x27 # k @ [CHR 0x27]"

definition not_subscriptable :: "string \<Rightarrow> exception" where
  "not_subscriptable ty =
     Exception ''TypeError'' (quoted ty @ '' object is not subscriptable'')"

text \<open>
  \<^verbatim>\<open>obj['key']\<close> with a string literal as key. \<^verbatim>\<open>str(KeyError(k))\<close> is
  \<^verbatim>\<open>repr(k)\<close>, which for the plain keys of this program is the key between single quotes.
  The messages are those of CPython 3.11 and later.
\<close>

fun getitem_key :: "pyval \<Rightarrow> string \<Rightarrow> exception + pyval" where
  "getitem_key (PDict kvs) k =
     (case map_of kvs k of
        Some v \<Rightarrow> Inr v
      | None \<Rightarrow> Inl (Exception ''KeyError'' (quoted k)))"
| "getitem_key (PList xs) k =
     Inl (Exception ''TypeError'' ''list indices must be integers or slices, not str'')"
| "getitem_key (PStr s) k =
     Inl (Exception ''TypeError''
            (''string indices must be integers, not '' @ quoted ''str''))"
| "getitem_key PNone k = Inl (not_subscriptable ''NoneType'')"
| "getitem_key (PBool b) k = Inl (not_subscriptable ''bool'')"
| "getitem_key (PInt i) k = Inl (not_subscriptable ''int'')"
| "getitem_key (PFloat x) k = Inl (not_subscriptable ''float'')"

text \<open>
  \<^verbatim>\<open>obj[0]\<close>. The keys of a parsed JSON object are strings, so \<^verbatim>\<open>0\<close> is never
  among them.
\<close>

fun getitem_0 :: "pyval \<Rightarrow> exception + pyval" where
  "getitem_0 (PList []) = Inl (Exception ''IndexError'' ''list index out of range'')"
| "getitem_0 (PList (x # xs)) = Inr x"
| "getitem_0 (PStr []) = Inl (Exception ''IndexError'' ''string index out of range'')"
| "getitem_0 (PStr (c # cs)) = Inr (PStr [c])"
| "getitem_0 (PDict kvs) = Inl (Exception ''KeyError'' ''0'')"
| "getitem_0 PNone = Inl (not_subscriptable ''NoneType'')"
| "getitem_0 (PBool b) = Inl (not_subscriptable ''bool'')"
| "getitem_0 (PInt i) = Inl (not_subscriptable ''int'')"
| "getitem_0 (PFloat x) = Inl (not_subscriptable ''float'')"

text \<open>\<^verbatim>\<open>value == 'literal'\<close>: only a str with the same characters is equal to a str.\<close>

fun py_eq_str :: "pyval \<Rightarrow> string \<Rightarrow> bool" where
  "py_eq_str (PStr s) t = (s = t)"
| "py_eq_str v t = False"

text \<open>Truth value testing, as \<^verbatim>\<open>not x\<close> applies it.\<close>

fun py_truthy :: "pyval \<Rightarrow> bool" where
  "py_truthy PNone = False"
| "py_truthy (PBool b) = b"
| "py_truthy (PInt i) = (i \<noteq> 0)"
| "py_truthy (PFloat x) = (x \<noteq> 0)"
| "py_truthy (PStr s) = (s \<noteq> [])"
| "py_truthy (PList xs) = (xs \<noteq> [])"
| "py_truthy (PDict kvs) = (kvs \<noteq> [])"

text \<open>
  \<^verbatim>\<open>f"{v}"\<close> formats with \<^verbatim>\<open>str(v)\<close>: a str is itself, and for every other value
  read from JSON it is \<^verbatim>\<open>repr(v)\<close>, Python's builtin, taken as the parameter \<open>repr\<close>.
\<close>

fun py_str :: "(pyval \<Rightarrow> string) \<Rightarrow> pyval \<Rightarrow> string" where
  "py_str repr (PStr s) = s"
| "py_str repr v = repr v"

definition bind_exc :: "exception + 'a \<Rightarrow> ('a \<Rightarrow> exception + 'b) \<Rightarrow> exception + 'b" where
  "bind_exc m f = (case m of Inl e \<Rightarrow> Inl e | Inr v \<Rightarrow> f v)"

section \<open>Result bundles\<close>

datatype CompletionResult = OK | TOO_LONG | ERROR

record CompletionData =
  status :: CompletionResult
  reply_text :: pyval
  status_text :: pyval

record ImageCompletionData =
  status :: CompletionResult
  image64 :: pyval
  status_text :: pyval

section \<open>The HTTP collaborator and the configuration\<close>

text \<open>
  \<^verbatim>\<open>src.constants\<close> is not part of the sources at hand: its values are the fields of
  a record passed to every function.
\<close>

record constants =
  OPENAI_API_KEY :: string
  OPENAI_API_URL :: string
  OPENAI_MODEL :: string
  MAX_CHARS_PER_REPLY_MSG :: int
  DALLE_API_URL :: string
  DALLE_MODEL :: string

text \<open>The arguments of one \<^verbatim>\<open>session.post\<close>; \<open>auth\<close> is login and password.\<close>

record request =
  url :: string
  json :: pyval
  auth :: "string \<times> string"

text \<open>
  What the pipelines read of a response: its status, and what awaiting
  \<^verbatim>\<open>r.json()\<close> gives, a value or an exception (a body that is not JSON).
\<close>

record response =
  status_code :: int
  json_body :: "exception + pyval"

text \<open>
  The calls a pipeline makes on the outside world, in order: the requests posted and the
  exceptions handed to \<^verbatim>\<open>logger.exception\<close>.
\<close>

record outside =
  posts :: "request list"
  logged :: "exception list"

section \<open>The completion pipeline\<close>

definition completion_request :: "constants \<Rightarrow> pyval list \<Rightarrow> request" where
  "completion_request c messages =
     \<lparr>url = OPENAI_API_URL c,
      json = PDict [(''model'', PStr (OPENAI_MODEL c)), (''messages'', PList messages)],
      auth = ('''', OPENAI_API_KEY c)\<rparr>"

text \<open>The body of \<^verbatim>\<open>async with session.post(...) as r\<close>, lines 44 to 52.\<close>

definition read_completion :: "response \<Rightarrow> exception + CompletionData" where
  "read_completion r =
     (if status_code r = 200 then
        bind_exc (json_body r) (\<lambda>js.
        bind_exc (getitem_key js ''choices'') (\<lambda>choices.
        bind_exc (getitem_0 choices) (\<lambda>choice.
        bind_exc (getitem_key choice ''message'') (\<lambda>message.
        bind_exc (getitem_key message ''content'') (\<lambda>reply.
        Inr \<lparr>CompletionData.status = OK, reply_text = reply,
             status_text = PNone\<rparr>)))))
      else
        bind_exc (json_body r) (\<lambda>js.
        bind_exc (getitem_key js ''error'') (\<lambda>err.
        bind_exc (getitem_key err ''code'') (\<lambda>code.
        Inr \<lparr>CompletionData.status =
               (if py_eq_str code ''context_length_exceeded'' then TOO_LONG else ERROR),
             reply_text = PNone, status_text = js\<rparr>))))"

text \<open>
  \<^verbatim>\<open>Message\<close> is defined outside the sources at hand; \<open>render\<close> is its
  \<^verbatim>\<open>render()\<close>, which returns a dict or raises. The list comprehension of line 35
  renders the messages in order and stops at the first one that raises.
\<close>

fun render_all ::
  "('m \<Rightarrow> exception + (string \<times> pyval) list) \<Rightarrow> 'm list \<Rightarrow> exception + pyval list" where
  "render_all render [] = Inr []"
| "render_all render (message # messages) =
     bind_exc (render message) (\<lambda>d.
     bind_exc (render_all render messages) (\<lambda>ds.
     Inr (PDict d # ds)))"

text \<open>
  The body of the \<^verbatim>\<open>try\<close>, lines 34 to 52. \<open>post\<close> is what awaiting
  \<^verbatim>\<open>session.post\<close> does with a request: it raises, or it gives the response. The
  result is what the body returns or what it raises, and the outside world after it; a
  request is posted only once every message has been rendered.
\<close>

definition try_completion ::
  "constants \<Rightarrow> ('m \<Rightarrow> exception + (string \<times> pyval) list)
     \<Rightarrow> (request \<Rightarrow> exception + response)
     \<Rightarrow> 'm list \<Rightarrow> outside \<Rightarrow> (exception + CompletionData) \<times> outside" where
  "try_completion c render post messages w =
     (case render_all render messages of
        Inl e \<Rightarrow> (Inl e, w)
      | Inr messages \<Rightarrow>
          (bind_exc (post (completion_request c messages)) read_completion,
           w\<lparr>posts := posts w @ [completion_request c messages]\<rparr>))"

text \<open>
  The whole function: \<^verbatim>\<open>except Exception\<close> (lines 53 to 57) logs an instance of
  \<^verbatim>\<open>Exception\<close> and turns it into a result; anything else that was raised goes on to
  the caller, \<open>Inl\<close>.
\<close>

definition generate_completion_response ::
  "constants \<Rightarrow> ('m \<Rightarrow> exception + (string \<times> pyval) list)
     \<Rightarrow> (request \<Rightarrow> exception + response)
     \<Rightarrow> 'm list \<Rightarrow> outside \<Rightarrow> (exception + CompletionData) \<times> outside" where
  "generate_completion_response c render post messages w =
     (case try_completion c render post messages w of
        (Inr d, w) \<Rightarrow> (Inr d, w)
      | (Inl e, w) \<Rightarrow>
          (if is_Exception e
           then (Inr \<lparr>CompletionData.status = ERROR, reply_text = PNone,
                      status_text = PStr (exc_str e)\<rparr>,
                 w\<lparr>logged := logged w @ [e]\<rparr>)
           else (Inl e, w)))"

section \<open>The image pipeline\<close>

text \<open>\<^verbatim>\<open>d.get(key, default)\<close>.\<close>

definition dict_get :: "(string \<times> pyval) list \<Rightarrow> string \<Rightarrow> pyval \<Rightarrow> pyval" where
  "dict_get d k dflt = (case map_of d k of Some v \<Rightarrow> v | None \<Rightarrow> dflt)"

definition image_request :: "constants \<Rightarrow> pyval \<Rightarrow> request" where
  "image_request c prompt =
     \<lparr>url = DALLE_API_URL c,
      json = PDict [(''prompt'', prompt), (''n'', PInt 1), (''size'', PStr ''256x256''),
                    (''response_format'', PStr ''b64_json''),
                    (''model'', PStr (DALLE_MODEL c))],
      auth = ('''', OPENAI_API_KEY c)\<rparr>"

text \<open>The body of \<^verbatim>\<open>async with session.post(...) as r\<close>, lines 76 to 84.\<close>

definition read_image :: "response \<Rightarrow> exception + ImageCompletionData" where
  "read_image r =
     (if status_code r = 200 then
        bind_exc (json_body r) (\<lambda>js.
        bind_exc (getitem_key js ''data'') (\<lambda>items.
        bind_exc (getitem_0 items) (\<lambda>item.
        bind_exc (getitem_key item ''b64_json'') (\<lambda>reply.
        Inr \<lparr>ImageCompletionData.status = OK, image64 = reply,
             status_text = PNone\<rparr>))))
      else
        bind_exc (json_body r) (\<lambda>js.
        bind_exc (getitem_key js ''error'') (\<lambda>err.
        bind_exc (getitem_key err ''code'') (\<lambda>code.
        Inr \<lparr>ImageCompletionData.status =
               (if py_eq_str code ''context_length_exceeded'' then TOO_LONG else ERROR),
             image64 = PNone, status_text = js\<rparr>))))"


text \<open>The body of the \<^verbatim>\<open>try\<close>, lines 63 to 84.\<close>

definition try_image ::
  "constants \<Rightarrow> ('m \<Rightarrow> exception + (string \<times> pyval) list)
     \<Rightarrow> (request \<Rightarrow> exception + response)
     \<Rightarrow> 'm \<Rightarrow> outside \<Rightarrow> (exception + ImageCompletionData) \<times> outside" where
  "try_image c render post prompt w =
     (case render prompt of
        Inl e \<Rightarrow> (Inl e, w)
      | Inr d \<Rightarrow>
          (let prompt = dict_get d ''content'' (PStr '''')
           in (bind_exc (post (image_request c prompt)) read_image,
               w\<lparr>posts := posts w @ [image_request c prompt]\<rparr>)))"

text \<open>The whole function, with the \<^verbatim>\<open>except Exception\<close> of lines 85 to 89.\<close>

definition generate_image_response ::
  "constants \<Rightarrow> ('m \<Rightarrow> exception + (string \<times> pyval) list)
     \<Rightarrow> (request \<Rightarrow> exception + response)
     \<Rightarrow> 'm \<Rightarrow> outside \<Rightarrow> (exception + ImageCompletionData) \<times> outside" where
  "generate_image_response c render post prompt w =
     (case try_image c render post prompt w of
        (Inr d, w) \<Rightarrow> (Inr d, w)
      | (Inl e, w) \<Rightarrow>
          (if is_Exception e
           then (Inr \<lparr>ImageCompletionData.status = ERROR, image64 = PNone,
                      status_text = PStr (exc_str e)\<rparr>,
                 w\<lparr>logged := logged w @ [e]\<rparr>)
           else (Inl e, w)))"

section \<open>The renderers\<close>

datatype color = Yellow

record embed =
  description :: string
  color :: color

text \<open>\<^verbatim>\<open>discord.File(fp, filename)\<close>, with the content of the stream.\<close>

datatype discord_file = File string string

text \<open>
  What a renderer does to its thread or channel, oldest first: a \<^verbatim>\<open>send\<close> of plain
  content, of a file or of an embed, and the call of \<^verbatim>\<open>close_thread\<close>, a helper
  defined outside the sources at hand.
\<close>

datatype event =
    Send_content string
  | Send_file discord_file
  | Send_embed embed
  | Close_thread

definition invalid_response_notice :: embed where
  "invalid_response_notice =
     \<lparr>description = ''**Invalid response** - empty response'', color = Yellow\<rparr>"

definition error_notice :: "(pyval \<Rightarrow> string) \<Rightarrow> pyval \<Rightarrow> embed" where
  "error_notice repr txt =
     \<lparr>description = ''**Error** - '' @ py_str repr txt, color = Yellow\<rparr>"

text \<open>The loop of lines 108 to 113, one chunk at a time.\<close>

fun send_chunks :: "constants \<Rightarrow> string list \<Rightarrow> event list \<Rightarrow> event list" where
  "send_chunks c [] thread = thread"
| "send_chunks c (r # rs) thread =
     (if int (length r) > MAX_CHARS_PER_REPLY_MSG c
      then send_chunks c rs (thread @ [Send_file (File r ''message.txt'')])
      else send_chunks c rs (thread @ [Send_content r]))"

text \<open>
  \<open>split\<close> is \<^verbatim>\<open>split_into_shorter_messages\<close> and \<open>repr\<close> Python's builtin; the
  thread is the list of what it has received so far.
\<close>

definition process_response ::
  "constants \<Rightarrow> (pyval \<Rightarrow> string list) \<Rightarrow> (pyval \<Rightarrow> string)
     \<Rightarrow> event list \<Rightarrow> CompletionData \<Rightarrow> event list" where
  "process_response c split repr thread response_data =
     (if CompletionData.status response_data = OK then
        (if \<not> py_truthy (reply_text response_data)
         then thread @ [Send_embed invalid_response_notice]
         else send_chunks c (split (reply_text response_data)) thread)
      else if CompletionData.status response_data = TOO_LONG then thread @ [Close_thread]
      else thread @
             [Send_embed (error_notice repr (CompletionData.status_text response_data))])"

text \<open>\<open>discord_image\<close> is the helper of that name, defined outside the sources at hand.\<close>

definition process_image_response ::
  "(pyval \<Rightarrow> discord_file) \<Rightarrow> (pyval \<Rightarrow> string)
     \<Rightarrow> event list \<Rightarrow> ImageCompletionData \<Rightarrow> event list" where
  "process_image_response discord_image repr channel response_data =
     (if ImageCompletionData.status response_data = OK then
        (if \<not> py_truthy (image64 response_data)
         then channel @ [Send_embed invalid_response_notice]
         else channel @ [Send_file (discord_image (image64 response_data))])
      else channel @
             [Send_embed (error_notice repr (ImageCompletionData.status_text response_data))])"


section \<open>Concrete inputs\<close>

text \<open>A configuration, a stand-in for each collaborator, and response bodies to run the code on.\<close>

definition example_constants :: constants where
  "example_constants =
     \<lparr>OPENAI_API_KEY = ''sk-test'',
      OPENAI_API_URL = ''https://api.example/v1/chat/completions'',
      OPENAI_MODEL = ''gpt-3.5-turbo'',
      MAX_CHARS_PER_REPLY_MSG = 5,
      DALLE_API_URL = ''https://api.example/v1/images/generations'',
      DALLE_MODEL = ''dall-e-2''\<rparr>"

text \<open>A message that is the dict it renders to.\<close>

definition render_dict ::
  "(string \<times> pyval) list \<Rightarrow> exception + (string \<times> pyval) list" where
  "render_dict m = Inr m"

text \<open>A \<^verbatim>\<open>render()\<close> that raises on every message.\<close>

definition render_failure :: exception where
  "render_failure = Exception ''AttributeError'' ''author''"

definition render_broken ::
  "(string \<times> pyval) list \<Rightarrow> exception + (string \<times> pyval) list" where
  "render_broken m = Inl render_failure"

definition example_messages :: "(string \<times> pyval) list list" where
  "example_messages = [[(''role'', PStr ''user''), (''content'', PStr ''Hello'')]]"

definition message_without_content :: "(string \<times> pyval) list" where
  "message_without_content = [(''role'', PStr ''user'')]"

definition quiet :: outside where
  "quiet = \<lparr>posts = [], logged = []\<rparr>"

text \<open>An endpoint that answers every request with \<open>r\<close>, and one that cannot be reached.\<close>

definition answer_with :: "response \<Rightarrow> request \<Rightarrow> exception + response" where
  "answer_with r req = Inr r"

definition connection_refused :: exception where
  "connection_refused = Exception ''ClientConnectorError'' ''Cannot connect to host''"

definition refuse :: "request \<Rightarrow> exception + response" where
  "refuse req = Inl connection_refused"

text \<open>An await that ends with \<^verbatim>\<open>asyncio.CancelledError\<close>.\<close>

definition cancelled :: exception where
  "cancelled = BaseException ''CancelledError'' []"

definition cancel :: "request \<Rightarrow> exception + response" where
  "cancel req = Inl cancelled"

definition one_image_body :: "(string \<times> pyval) list" where
  "one_image_body = [(''data'', PList [PDict [(''b64_json'', PStr ''aGk='')]])]"

definition choices_body :: "pyval \<Rightarrow> (string \<times> pyval) list" where
  "choices_body content =
     [(''choices'',
       PList [PDict [(''message'',
                      PDict [(''role'', PStr ''assistant''), (''content'', content)])]])]"

definition error_body :: "pyval \<Rightarrow> (string \<times> pyval) list" where
  "error_body code =
     [(''error'', PDict [(''message'', PStr ''request rejected''), (''code'', code)])]"

definition error_without_code :: "(string \<times> pyval) list" where
  "error_without_code = [(''error'', PDict [(''message'', PStr ''Bad gateway'')])]"

definition split_at_3 :: "pyval \<Rightarrow> string list" where
  "split_at_3 v = (case v of PStr s \<Rightarrow> [take 3 s, drop 3 s] | _ \<Rightarrow> [])"

definition repr_opaque :: "pyval \<Rightarrow> string" where
  "repr_opaque v = ''<repr>''"

definition image_png :: "pyval \<Rightarrow> discord_file" where
  "image_png v = (case v of PStr s \<Rightarrow> File s ''image.png'' | _ \<Rightarrow> File [] ''image.png'')"

section \<open>Properties of the Python operations\<close>

lemma py_eq_str_iff: "py_eq_str v t \<longleftrightarrow> v = PStr t"
  by (cases v) auto

lemma getitem_key_dict:
  "getitem_key v k = Inr x \<longleftrightarrow> (\<exists>kvs. v = PDict kvs \<and> map_of kvs k = Some x)"
  by (cases v) (auto split: option.splits)

lemma send_chunks_map:
  "send_chunks c rs thread =
     thread @ map (\<lambda>r. if int (length r) > MAX_CHARS_PER_REPLY_MSG c
                         then Send_file (File r ''message.txt'') else Send_content r) rs"
  by (induction rs arbitrary: thread) simp_all

lemma read_completion_bundle:
  assumes "read_completion r = Inr d"
  shows "(CompletionData.status_text d \<noteq> PNone \<longleftrightarrow> CompletionData.status d \<noteq> OK)"
    and "reply_text d \<noteq> PNone \<longrightarrow> CompletionData.status d = OK"
    and "CompletionData.status d = OK \<longrightarrow>
           status_code r = 200 \<and>
           (\<exists>js choices choice message.
              json_body r = Inr js \<and> getitem_key js ''choices'' = Inr choices
              \<and> getitem_0 choices = Inr choice
              \<and> getitem_key choice ''message'' = Inr message
              \<and> getitem_key message ''content'' = Inr (reply_text d))"
  using assms
  by (auto simp add: read_completion_def bind_exc_def getitem_key_dict
      split: if_splits sum.splits)

lemma read_image_bundle:
  assumes "read_image r = Inr d"
  shows "(ImageCompletionData.status_text d \<noteq> PNone \<longleftrightarrow> ImageCompletionData.status d \<noteq> OK)"
    and "image64 d \<noteq> PNone \<longrightarrow> ImageCompletionData.status d = OK"
    and "ImageCompletionData.status d = OK \<longrightarrow>
           status_code r = 200 \<and>
           (\<exists>js items item.
              json_body r = Inr js \<and> getitem_key js ''data'' = Inr items
              \<and> getitem_0 items = Inr item
              \<and> getitem_key item ''b64_json'' = Inr (image64 d))"
  using assms
  by (auto simp add: read_image_def bind_exc_def getitem_key_dict
      split: if_splits sum.splits)

lemma generate_completion_returns:
  assumes "fst (generate_completion_response c render post messages w) = Inr d"
  shows "(\<exists>wire r. render_all render messages = Inr wire
            \<and> post (completion_request c wire) = Inr r \<and> read_completion r = Inr d)
       \<or> (\<exists>e. d = \<lparr>CompletionData.status = ERROR, reply_text = PNone,
                     status_text = PStr (exc_str e)\<rparr>)"
  using assms
  by (auto simp add: generate_completion_response_def try_completion_def bind_exc_def
      split: sum.splits if_splits)

lemma generate_image_returns:
  assumes "fst (generate_image_response c render post prompt w) = Inr i"
  shows "(\<exists>d r. render prompt = Inr d
            \<and> post (image_request c (dict_get d ''content'' (PStr ''''))) = Inr r
            \<and> read_image r = Inr i)
       \<or> (\<exists>e. i = \<lparr>ImageCompletionData.status = ERROR, image64 = PNone,
                     status_text = PStr (exc_str e)\<rparr>)"
  using assms
  by (auto simp add: generate_image_response_def try_image_def bind_exc_def Let_def
      split: sum.splits if_splits)

lemma render_dict_all: "render_all render_dict ms = Inr (map PDict ms)"
  by (induction ms) (simp_all add: render_dict_def bind_exc_def)

section \<open>The pipelines\<close>

text \<open>
  C1, as amended. When every message renders, the endpoint answers with a status other than
  200 and the body parses to a dict whose \<^verbatim>\<open>'error'\<close> entry is a dict with a
  \<^verbatim>\<open>'code'\<close> entry, either pipeline returns TOO_LONG if that code is the str
  \<^verbatim>\<open>'context_length_exceeded'\<close> and ERROR for any other code (a str, \<^verbatim>\<open>None\<close>
  or anything else); the payload field is \<^verbatim>\<open>None\<close>, the status text is the parsed body
  itself, and nothing is logged.
\<close>

theorem non_200_classified_by_code:
  assumes "status_code r \<noteq> 200"
    and "json_body r = Inr (PDict body)"
    and "map_of body ''error'' = Some (PDict err)"
    and "map_of err ''code'' = Some code"
  shows "(render_all render messages = Inr wire \<and> post (completion_request c wire) = Inr r \<longrightarrow>
          generate_completion_response c render post messages w =
            (Inr \<lparr>CompletionData.status =
                     (if code = PStr ''context_length_exceeded'' then TOO_LONG else ERROR),
                  reply_text = PNone, status_text = PDict body\<rparr>,
             w\<lparr>posts := posts w @ [completion_request c wire]\<rparr>))
       \<and> (render prompt = Inr d
            \<and> post (image_request c (dict_get d ''content'' (PStr ''''))) = Inr r \<longrightarrow>
          generate_image_response c render post prompt w =
            (Inr \<lparr>ImageCompletionData.status =
                     (if code = PStr ''context_length_exceeded'' then TOO_LONG else ERROR),
                  image64 = PNone, status_text = PDict body\<rparr>,
             w\<lparr>posts := posts w @
                  [image_request c (dict_get d ''content'' (PStr ''''))]\<rparr>))"
  using assms
  by (simp add: generate_completion_response_def generate_image_response_def
      try_completion_def try_image_def
      read_completion_def read_image_def bind_exc_def Let_def py_eq_str_iff)

text \<open>
  The amended C1 on a 400 answer carrying the sentinel code: both pipelines return
  TOO_LONG with the parsed body as status text.
\<close>

theorem non_200_classified_by_code_witness:
  "status_code \<lparr>status_code = 400,
       json_body = Inr (PDict (error_body (PStr ''context_length_exceeded'')))\<rparr> \<noteq> 200
   \<and> fst (generate_completion_response example_constants render_dict
        (answer_with \<lparr>status_code = 400,
           json_body = Inr (PDict (error_body (PStr ''context_length_exceeded'')))\<rparr>)
        example_messages quiet)
      = Inr \<lparr>CompletionData.status = TOO_LONG, reply_text = PNone,
             status_text = PDict (error_body (PStr ''context_length_exceeded''))\<rparr>
   \<and> fst (generate_image_response example_constants render_dict
        (answer_with \<lparr>status_code = 400,
           json_body = Inr (PDict (error_body (PStr ''context_length_exceeded'')))\<rparr>)
        message_without_content quiet)
      = Inr \<lparr>ImageCompletionData.status = TOO_LONG, image64 = PNone,
             status_text = PDict (error_body (PStr ''context_length_exceeded''))\<rparr>"
proof -
  let ?code = "PStr ''context_length_exceeded''"
  let ?r = "\<lparr>status_code = 400, json_body = Inr (PDict (error_body ?code))\<rparr>"
  have h1: "status_code ?r \<noteq> 200" by simp
  have h2: "json_body ?r = Inr (PDict (error_body ?code))" by simp
  have h3: "map_of (error_body ?code) ''error''
              = Some (PDict [(''message'', PStr ''request rejected''), (''code'', ?code)])"
    by (simp add: error_body_def)
  have h4: "map_of [(''message'', PStr ''request rejected''), (''code'', ?code)] ''code''
              = Some ?code"
    by simp
  have h5: "answer_with ?r q = Inr ?r" for q
    by (simp add: answer_with_def)
  have h6: "render_all render_dict example_messages = Inr (map PDict example_messages)"
    by (rule render_dict_all)
  have h7: "render_dict message_without_content = Inr message_without_content"
    by (simp add: render_dict_def)
  show ?thesis
    using h1 h5 h6 h7
      non_200_classified_by_code [where r = ?r and post = "answer_with ?r"
        and c = example_constants and render = render_dict
        and messages = example_messages and wire = "map PDict example_messages"
        and w = quiet and prompt = message_without_content
        and d = message_without_content, OF h1 h2 h3 h4]
    by simp
qed

text \<open>
  C1 as stated fails: a 502 answer whose error object carries no \<^verbatim>\<open>'code'\<close> makes
  \<^verbatim>\<open>js['error']['code']\<close> raise KeyError, and the status text of the result is the
  string of that exception, not the payload.
\<close>

theorem non_200_payload_not_carried_counterexample:
  "status_code \<lparr>status_code = 502, json_body = Inr (PDict error_without_code)\<rparr> \<noteq> 200
   \<and> generate_completion_response example_constants render_dict
        (answer_with \<lparr>status_code = 502, json_body = Inr (PDict error_without_code)\<rparr>)
        example_messages quiet
      = (Inr \<lparr>CompletionData.status = ERROR, reply_text = PNone,
              status_text = PStr (quoted ''code'')\<rparr>,
         \<lparr>posts = [completion_request example_constants (map PDict example_messages)],
          logged = [Exception ''KeyError'' (quoted ''code'')]\<rparr>)
   \<and> PStr (quoted ''code'') \<noteq> PDict error_without_code"
  by (simp add: generate_completion_response_def try_completion_def render_dict_all
      read_completion_def bind_exc_def
      answer_with_def error_without_code_def quiet_def)

text \<open>
  C2, as amended. Whatever is raised inside the \<^verbatim>\<open>try\<close> of either pipeline, by
  \<^verbatim>\<open>render()\<close>, by the transport (\<open>post\<close>) or while the answer is read
  (\<^verbatim>\<open>r.json()\<close> or a subscript): if it is an instance of \<^verbatim>\<open>Exception\<close>, the
  pipeline logs it once, logs nothing else, and returns ERROR with no payload and the
  exception's string as status text; if it is not (an asyncio cancellation, a keyboard
  interrupt), it is not logged and goes on to the caller. A request is posted unless
  \<^verbatim>\<open>render()\<close> is what raised. So what reaches the caller is never an instance of
  \<^verbatim>\<open>Exception\<close>.
\<close>

theorem exceptions_caught_or_propagated:
  "(render_all render messages = Inl e \<longrightarrow>
      generate_completion_response c render post messages w =
        (if is_Exception e
         then (Inr \<lparr>CompletionData.status = ERROR, reply_text = PNone,
                    status_text = PStr (exc_str e)\<rparr>,
               w\<lparr>logged := logged w @ [e]\<rparr>)
         else (Inl e, w)))
   \<and> (render_all render messages = Inr wire
        \<and> (post (completion_request c wire) = Inl e
           \<or> (\<exists>r. post (completion_request c wire) = Inr r \<and> read_completion r = Inl e)) \<longrightarrow>
      generate_completion_response c render post messages w =
        (if is_Exception e
         then (Inr \<lparr>CompletionData.status = ERROR, reply_text = PNone,
                    status_text = PStr (exc_str e)\<rparr>,
               w\<lparr>posts := posts w @ [completion_request c wire],
                 logged := logged w @ [e]\<rparr>)
         else (Inl e, w\<lparr>posts := posts w @ [completion_request c wire]\<rparr>)))
   \<and> (render prompt = Inl e \<longrightarrow>
      generate_image_response c render post prompt w =
        (if is_Exception e
         then (Inr \<lparr>ImageCompletionData.status = ERROR, image64 = PNone,
                    status_text = PStr (exc_str e)\<rparr>,
               w\<lparr>logged := logged w @ [e]\<rparr>)
         else (Inl e, w)))
   \<and> (render prompt = Inr d
        \<and> (post (image_request c (dict_get d ''content'' (PStr ''''))) = Inl e
           \<or> (\<exists>r. post (image_request c (dict_get d ''content'' (PStr ''''))) = Inr r
                   \<and> read_image r = Inl e)) \<longrightarrow>
      generate_image_response c render post prompt w =
        (if is_Exception e
         then (Inr \<lparr>ImageCompletionData.status = ERROR, image64 = PNone,
                    status_text = PStr (exc_str e)\<rparr>,
               w\<lparr>posts := posts w @ [image_request c (dict_get d ''content'' (PStr ''''))],
                 logged := logged w @ [e]\<rparr>)
         else (Inl e,
               w\<lparr>posts := posts w @
                    [image_request c (dict_get d ''content'' (PStr ''''))]\<rparr>)))
   \<and> (fst (generate_completion_response c render post messages w) = Inl e \<longrightarrow>
        \<not> is_Exception e)
   \<and> (fst (generate_image_response c render post prompt w) = Inl e \<longrightarrow>
        \<not> is_Exception e)"
proof -
  have text_render: "render_all render messages = Inl e \<longrightarrow>
      generate_completion_response c render post messages w =
        (if is_Exception e
         then (Inr \<lparr>CompletionData.status = ERROR, reply_text = PNone,
                    status_text = PStr (exc_str e)\<rparr>,
               w\<lparr>logged := logged w @ [e]\<rparr>)
         else (Inl e, w))"
    by (simp add: generate_completion_response_def try_completion_def)
  have text_io: "render_all render messages = Inr wire
        \<and> (post (completion_request c wire) = Inl e
           \<or> (\<exists>r. post (completion_request c wire) = Inr r \<and> read_completion r = Inl e)) \<longrightarrow>
      generate_completion_response c render post messages w =
        (if is_Exception e
         then (Inr \<lparr>CompletionData.status = ERROR, reply_text = PNone,
                    status_text = PStr (exc_str e)\<rparr>,
               w\<lparr>posts := posts w @ [completion_request c wire],
                 logged := logged w @ [e]\<rparr>)
         else (Inl e, w\<lparr>posts := posts w @ [completion_request c wire]\<rparr>))"
    by (auto simp add: generate_completion_response_def try_completion_def bind_exc_def)
  have image_render: "render prompt = Inl e \<longrightarrow>
      generate_image_response c render post prompt w =
        (if is_Exception e
         then (Inr \<lparr>ImageCompletionData.status = ERROR, image64 = PNone,
                    status_text = PStr (exc_str e)\<rparr>,
               w\<lparr>logged := logged w @ [e]\<rparr>)
         else (Inl e, w))"
    by (simp add: generate_image_response_def try_image_def)
  have image_io: "render prompt = Inr d
        \<and> (post (image_request c (dict_get d ''content'' (PStr ''''))) = Inl e
           \<or> (\<exists>r. post (image_request c (dict_get d ''content'' (PStr ''''))) = Inr r
                   \<and> read_image r = Inl e)) \<longrightarrow>
      generate_image_response c render post prompt w =
        (if is_Exception e
         then (Inr \<lparr>ImageCompletionData.status = ERROR, image64 = PNone,
                    status_text = PStr (exc_str e)\<rparr>,
               w\<lparr>posts := posts w @ [image_request c (dict_get d ''content'' (PStr ''''))],
                 logged := logged w @ [e]\<rparr>)
         else (Inl e,
               w\<lparr>posts := posts w @
                    [image_request c (dict_get d ''content'' (PStr ''''))]\<rparr>))"
    by (auto simp add: generate_image_response_def try_image_def bind_exc_def Let_def)
  have text_caller: "fst (generate_completion_response c render post messages w) = Inl e \<longrightarrow>
        \<not> is_Exception e"
    by (auto simp add: generate_completion_response_def split: prod.splits sum.splits if_splits)
  have image_caller: "fst (generate_image_response c render post prompt w) = Inl e \<longrightarrow>
        \<not> is_Exception e"
    by (auto simp add: generate_image_response_def split: prod.splits sum.splits if_splits)
  from text_render text_io image_render image_io text_caller image_caller
  show ?thesis by blast
qed

text \<open>
  The amended C2 at work: a \<^verbatim>\<open>render()\<close> that raises (no request, one log entry,
  ERROR), a refused connection (one request, one log entry, ERROR, the message as status
  text), and a cancelled await, which reaches the caller and is not an instance of
  \<^verbatim>\<open>Exception\<close>.
\<close>

theorem exceptions_caught_or_propagated_witness:
  "render_all render_broken example_messages = Inl render_failure
   \<and> generate_completion_response example_constants render_broken refuse example_messages quiet
      = (Inr \<lparr>CompletionData.status = ERROR, reply_text = PNone,
              status_text = PStr ''author''\<rparr>,
         \<lparr>posts = [], logged = [render_failure]\<rparr>)
   \<and> generate_completion_response example_constants render_dict refuse example_messages quiet
      = (Inr \<lparr>CompletionData.status = ERROR, reply_text = PNone,
              status_text = PStr ''Cannot connect to host''\<rparr>,
         \<lparr>posts = [completion_request example_constants (map PDict example_messages)],
          logged = [connection_refused]\<rparr>)
   \<and> generate_image_response example_constants render_broken refuse message_without_content
        quiet
      = (Inr \<lparr>ImageCompletionData.status = ERROR, image64 = PNone,
              status_text = PStr ''author''\<rparr>,
         \<lparr>posts = [], logged = [render_failure]\<rparr>)
   \<and> generate_image_response example_constants render_dict refuse message_without_content quiet
      = (Inr \<lparr>ImageCompletionData.status = ERROR, image64 = PNone,
              status_text = PStr ''Cannot connect to host''\<rparr>,
         \<lparr>posts = [image_request example_constants (PStr '''')],
          logged = [connection_refused]\<rparr>)
   \<and> fst (generate_completion_response example_constants render_dict cancel example_messages
          quiet) = Inl cancelled
   \<and> fst (generate_image_response example_constants render_dict cancel message_without_content
          quiet) = Inl cancelled
   \<and> \<not> is_Exception cancelled"
proof -
  let ?wire = "map PDict example_messages"
  have r1: "render_all render_broken example_messages = Inl render_failure"
    by (simp add: example_messages_def render_broken_def bind_exc_def)
  have r2: "render_all render_dict example_messages = Inr ?wire"
    by (rule render_dict_all)
  have r3: "render_broken message_without_content = Inl render_failure"
    by (simp add: render_broken_def)
  have r4: "render_dict message_without_content = Inr message_without_content"
    by (simp add: render_dict_def)
  have p: "refuse q = Inl connection_refused" for q
    by (simp add: refuse_def)
  have g: "dict_get message_without_content ''content'' (PStr '''') = PStr ''''"
    by (simp add: dict_get_def message_without_content_def)
  have e1: "is_Exception render_failure" "exc_str render_failure = ''author''"
    by (simp_all add: render_failure_def)
  have e2: "is_Exception connection_refused"
    "exc_str connection_refused = ''Cannot connect to host''"
    by (simp_all add: connection_refused_def)
  have c1: "fst (generate_completion_response example_constants render_dict cancel
                   example_messages quiet) = Inl cancelled"
    by (simp add: generate_completion_response_def try_completion_def render_dict_all
        bind_exc_def cancel_def cancelled_def)
  have c2: "fst (generate_image_response example_constants render_dict cancel
                   message_without_content quiet) = Inl cancelled"
    by (simp add: generate_image_response_def try_image_def render_dict_def
        bind_exc_def cancel_def cancelled_def)
  note broken = exceptions_caught_or_propagated [where render = render_broken
      and messages = example_messages and e = render_failure and c = example_constants
      and post = refuse and w = quiet and prompt = message_without_content]
  note refused = exceptions_caught_or_propagated [where render = render_dict
      and messages = example_messages and wire = ?wire and e = connection_refused
      and c = example_constants and post = refuse and w = quiet
      and prompt = message_without_content and d = message_without_content]
  note cancelling = exceptions_caught_or_propagated [where render = render_dict
      and messages = example_messages and e = cancelled
      and c = example_constants and post = cancel and w = quiet
      and prompt = message_without_content]
  from broken r1 r3 e1
  have a: "generate_completion_response example_constants render_broken refuse
             example_messages quiet
           = (Inr \<lparr>CompletionData.status = ERROR, reply_text = PNone,
                   status_text = PStr ''author''\<rparr>,
              \<lparr>posts = [], logged = [render_failure]\<rparr>)"
    and b: "generate_image_response example_constants render_broken refuse
             message_without_content quiet
           = (Inr \<lparr>ImageCompletionData.status = ERROR, image64 = PNone,
                   status_text = PStr ''author''\<rparr>,
              \<lparr>posts = [], logged = [render_failure]\<rparr>)"
    by (simp_all add: quiet_def)
  from refused r2 r4 p g e2
  have c: "generate_completion_response example_constants render_dict refuse
             example_messages quiet
           = (Inr \<lparr>CompletionData.status = ERROR, reply_text = PNone,
                   status_text = PStr ''Cannot connect to host''\<rparr>,
              \<lparr>posts = [completion_request example_constants ?wire],
               logged = [connection_refused]\<rparr>)"
    and d: "generate_image_response example_constants render_dict refuse
             message_without_content quiet
           = (Inr \<lparr>ImageCompletionData.status = ERROR, image64 = PNone,
                   status_text = PStr ''Cannot connect to host''\<rparr>,
              \<lparr>posts = [image_request example_constants (PStr '''')],
               logged = [connection_refused]\<rparr>)"
    by (simp_all add: quiet_def)
  from cancelling c1 have n: "\<not> is_Exception cancelled"
    by blast
  from r1 a b c d c1 c2 n show ?thesis
    by blast
qed

text \<open>
  C2 as stated fails: when the await of \<^verbatim>\<open>session.post\<close> ends with
  \<^verbatim>\<open>asyncio.CancelledError\<close>, which \<^verbatim>\<open>except Exception\<close> does not catch,
  the exception reaches the caller; there is no result and nothing is logged.
\<close>

theorem cancellation_propagates_counterexample:
  "generate_completion_response example_constants render_dict cancel example_messages quiet
     = (Inl (BaseException ''CancelledError'' []),
        \<lparr>posts = [completion_request example_constants (map PDict example_messages)],
         logged = []\<rparr>)"
  by (simp add: generate_completion_response_def try_completion_def render_dict_all
      bind_exc_def cancel_def cancelled_def quiet_def)

text \<open>
  C3. For a non-empty list of messages, once they are rendered, when the completion
  endpoint answers 200 with a body of the shape
  \<^verbatim>\<open>{choices: [{message: {content}}, ...]}\<close>, \<open>generate_completion_response\<close> returns
  OK with the first choice's content as reply text, whatever that content is (the empty
  string included), no status text, and logs nothing.
\<close>

theorem completion_ok_first_choice:
  assumes "messages \<noteq> []"
    and "render_all render messages = Inr wire"
    and "post (completion_request c wire) = Inr r"
    and "status_code r = 200"
    and "json_body r = Inr (PDict body)"
    and "map_of body ''choices'' = Some (PList (PDict choice # others))"
    and "map_of choice ''message'' = Some (PDict message)"
    and "map_of message ''content'' = Some content"
  shows "generate_completion_response c render post messages w =
     (Inr \<lparr>CompletionData.status = OK, reply_text = content, status_text = PNone\<rparr>,
      w\<lparr>posts := posts w @ [completion_request c wire]\<rparr>)"
  using assms
  by (simp add: generate_completion_response_def try_completion_def read_completion_def
      bind_exc_def)

text \<open>C3 on a 200 answer whose content is the empty string: OK, with the empty reply.\<close>

theorem completion_ok_first_choice_witness:
  "example_messages \<noteq> []
   \<and> render_all render_dict example_messages = Inr (map PDict example_messages)
   \<and> status_code \<lparr>status_code = 200, json_body = Inr (PDict (choices_body (PStr '''')))\<rparr>
       = 200
   \<and> generate_completion_response example_constants render_dict
        (answer_with \<lparr>status_code = 200, json_body = Inr (PDict (choices_body (PStr '''')))\<rparr>)
        example_messages quiet
      = (Inr \<lparr>CompletionData.status = OK, reply_text = PStr '''', status_text = PNone\<rparr>,
         \<lparr>posts = [completion_request example_constants (map PDict example_messages)],
          logged = []\<rparr>)"
proof -
  let ?r = "\<lparr>status_code = 200, json_body = Inr (PDict (choices_body (PStr '''')))\<rparr>"
  let ?message = "[(''role'', PStr ''assistant''), (''content'', PStr '''')]"
  let ?wire = "map PDict example_messages"
  have h1: "example_messages \<noteq> []"
    by (simp add: example_messages_def)
  have h2: "render_all render_dict example_messages = Inr ?wire"
    by (rule render_dict_all)
  have h3: "answer_with ?r (completion_request example_constants ?wire) = Inr ?r"
    by (simp add: answer_with_def)
  have h4: "status_code ?r = 200" by simp
  have h5: "json_body ?r = Inr (PDict (choices_body (PStr '''')))" by simp
  have h6: "map_of (choices_body (PStr '''')) ''choices''
              = Some (PList (PDict [(''message'', PDict ?message)] # []))"
    by (simp add: choices_body_def)
  have h7: "map_of [(''message'', PDict ?message)] ''message'' = Some (PDict ?message)"
    by simp
  have h8: "map_of ?message ''content'' = Some (PStr '''')"
    by simp
  show ?thesis
    using h1 h2
      completion_ok_first_choice [where messages = example_messages and render = render_dict
        and wire = ?wire and post = "answer_with ?r" and c = example_constants and w = quiet,
        OF h1 h2 h3 h4 h5 h6 h7 h8]
    by (simp add: quiet_def)
qed

text \<open>
  C4, as amended. For every result bundle that either pipeline returns, the status text is
  populated (not \<^verbatim>\<open>None\<close>) exactly when the status is not OK, and the payload is
  populated only when the status is OK; so at most one of the two is populated. When the
  status is OK, the endpoint answered the request with 200 and the payload is the value
  found in the parsed body, at \<^verbatim>\<open>['choices'][0]['message']['content']\<close> for the text
  pipeline and at \<^verbatim>\<open>['data'][0]['b64_json']\<close> for the image pipeline, whatever that
  value is.
\<close>

theorem bundle_fields_by_status:
  "(fst (generate_completion_response c render post messages w) = Inr d \<longrightarrow>
      (CompletionData.status_text d \<noteq> PNone \<longleftrightarrow> CompletionData.status d \<noteq> OK)
      \<and> (reply_text d \<noteq> PNone \<longrightarrow> CompletionData.status d = OK)
      \<and> (CompletionData.status d = OK \<longrightarrow>
           (\<exists>wire r js choices choice message.
              render_all render messages = Inr wire
              \<and> post (completion_request c wire) = Inr r
              \<and> status_code r = 200
              \<and> json_body r = Inr js
              \<and> getitem_key js ''choices'' = Inr choices
              \<and> getitem_0 choices = Inr choice
              \<and> getitem_key choice ''message'' = Inr message
              \<and> getitem_key message ''content'' = Inr (reply_text d))))
   \<and> (fst (generate_image_response c render post prompt w) = Inr i \<longrightarrow>
      (ImageCompletionData.status_text i \<noteq> PNone \<longleftrightarrow> ImageCompletionData.status i \<noteq> OK)
      \<and> (image64 i \<noteq> PNone \<longrightarrow> ImageCompletionData.status i = OK)
      \<and> (ImageCompletionData.status i = OK \<longrightarrow>
           (\<exists>p r js items item.
              render prompt = Inr p
              \<and> post (image_request c (dict_get p ''content'' (PStr ''''))) = Inr r
              \<and> status_code r = 200
              \<and> json_body r = Inr js
              \<and> getitem_key js ''data'' = Inr items
              \<and> getitem_0 items = Inr item
              \<and> getitem_key item ''b64_json'' = Inr (image64 i))))"
proof -
  have text_side:
    "(CompletionData.status_text d \<noteq> PNone \<longleftrightarrow> CompletionData.status d \<noteq> OK)
      \<and> (reply_text d \<noteq> PNone \<longrightarrow> CompletionData.status d = OK)
      \<and> (CompletionData.status d = OK \<longrightarrow>
           (\<exists>wire r js choices choice message.
              render_all render messages = Inr wire
              \<and> post (completion_request c wire) = Inr r
              \<and> status_code r = 200
              \<and> json_body r = Inr js
              \<and> getitem_key js ''choices'' = Inr choices
              \<and> getitem_0 choices = Inr choice
              \<and> getitem_key choice ''message'' = Inr message
              \<and> getitem_key message ''content'' = Inr (reply_text d)))"
    if ret: "fst (generate_completion_response c render post messages w) = Inr d"
  proof -
    from generate_completion_returns [OF ret]
    consider (answered) wire r where "render_all render messages = Inr wire"
        "post (completion_request c wire) = Inr r" "read_completion r = Inr d"
      | (caught) e where "d = \<lparr>CompletionData.status = ERROR, reply_text = PNone,
                               status_text = PStr (exc_str e)\<rparr>"
      by blast
    then show ?thesis
    proof cases
      case answered
      from read_completion_bundle [OF answered(3)] answered(1,2) show ?thesis
        by blast
    next
      case caught
      then show ?thesis by simp
    qed
  qed
  have image_side:
    "(ImageCompletionData.status_text i \<noteq> PNone \<longleftrightarrow> ImageCompletionData.status i \<noteq> OK)
      \<and> (image64 i \<noteq> PNone \<longrightarrow> ImageCompletionData.status i = OK)
      \<and> (ImageCompletionData.status i = OK \<longrightarrow>
           (\<exists>p r js items item.
              render prompt = Inr p
              \<and> post (image_request c (dict_get p ''content'' (PStr ''''))) = Inr r
              \<and> status_code r = 200
              \<and> json_body r = Inr js
              \<and> getitem_key js ''data'' = Inr items
              \<and> getitem_0 items = Inr item
              \<and> getitem_key item ''b64_json'' = Inr (image64 i)))"
    if ret: "fst (generate_image_response c render post prompt w) = Inr i"
  proof -
    from generate_image_returns [OF ret]
    consider (answered) p r where "render prompt = Inr p"
        "post (image_request c (dict_get p ''content'' (PStr ''''))) = Inr r"
        "read_image r = Inr i"
      | (caught) e where "i = \<lparr>ImageCompletionData.status = ERROR, image64 = PNone,
                               status_text = PStr (exc_str e)\<rparr>"
      by blast
    then show ?thesis
    proof cases
      case answered
      from read_image_bundle [OF answered(3)] answered(1,2) show ?thesis
        by blast
    next
      case caught
      then show ?thesis by simp
    qed
  qed
  from text_side image_side show ?thesis
    by blast
qed

text \<open>
  The amended C4 on a 200 answer with content \<^verbatim>\<open>'Hi'\<close> and on a 200 answer with one
  image: the bundles returned have their payload populated, so their status is OK and
  their status text is \<^verbatim>\<open>None\<close>.
\<close>

theorem bundle_fields_by_status_witness:
  "fst (generate_completion_response example_constants render_dict
        (answer_with \<lparr>status_code = 200, json_body = Inr (PDict (choices_body (PStr ''Hi'')))\<rparr>)
        example_messages quiet)
     = Inr \<lparr>CompletionData.status = OK, reply_text = PStr ''Hi'', status_text = PNone\<rparr>
   \<and> fst (generate_image_response example_constants render_dict
        (answer_with \<lparr>status_code = 200, json_body = Inr (PDict one_image_body)\<rparr>)
        message_without_content quiet)
     = Inr \<lparr>ImageCompletionData.status = OK, image64 = PStr ''aGk='', status_text = PNone\<rparr>"
proof -
  let ?post1 = "answer_with
     \<lparr>status_code = 200, json_body = Inr (PDict (choices_body (PStr ''Hi'')))\<rparr>"
  let ?post2 = "answer_with \<lparr>status_code = 200, json_body = Inr (PDict one_image_body)\<rparr>"
  obtain d where d: "fst (generate_completion_response example_constants render_dict
        ?post1 example_messages quiet) = Inr d" and dr: "reply_text d = PStr ''Hi''"
    by (simp add: generate_completion_response_def try_completion_def render_dict_all
        read_completion_def bind_exc_def answer_with_def choices_body_def)
  obtain i where i: "fst (generate_image_response example_constants render_dict
        ?post2 message_without_content quiet) = Inr i" and ir: "image64 i = PStr ''aGk=''"
    by (simp add: generate_image_response_def try_image_def render_dict_def
        read_image_def bind_exc_def answer_with_def one_image_body_def)
  from dr have dp: "reply_text d \<noteq> PNone" by simp
  from ir have ip: "image64 i \<noteq> PNone" by simp
  from d dp
    bundle_fields_by_status [where c = example_constants and render = render_dict
      and post = ?post1 and messages = example_messages and w = quiet and d = d
      and prompt = message_without_content]
  have ds: "CompletionData.status d = OK" and dt: "CompletionData.status_text d = PNone"
    by blast+
  from i ip
    bundle_fields_by_status [where c = example_constants and render = render_dict
      and post = ?post2 and messages = example_messages and w = quiet and i = i
      and prompt = message_without_content]
  have ist: "ImageCompletionData.status i = OK"
    and it: "ImageCompletionData.status_text i = PNone"
    by blast+
  from dr ds dt have "d = \<lparr>CompletionData.status = OK, reply_text = PStr ''Hi'',
                           status_text = PNone\<rparr>"
    by simp
  moreover from ir ist it
  have "i = \<lparr>ImageCompletionData.status = OK, image64 = PStr ''aGk='',
              status_text = PNone\<rparr>"
    by simp
  ultimately show ?thesis
    using d i by simp
qed

text \<open>
  C4 as stated fails: a 200 answer whose first choice has content \<^verbatim>\<open>null\<close> gives a
  result with status OK in which neither the reply text nor the status text is populated.
\<close>

theorem bundle_null_content_counterexample:
  "fst (generate_completion_response example_constants render_dict
        (answer_with \<lparr>status_code = 200, json_body = Inr (PDict (choices_body PNone))\<rparr>)
        example_messages quiet)
     = Inr \<lparr>CompletionData.status = OK, reply_text = PNone, status_text = PNone\<rparr>"
  by (simp add: generate_completion_response_def try_completion_def render_dict_all
      read_completion_def bind_exc_def answer_with_def choices_body_def)

text \<open>
  C10. When the dict rendered from the prompt message has no \<^verbatim>\<open>'content'\<close> key,
  \<open>generate_image_response\<close> raises nothing on the extraction: it posts the request with
  the empty string as prompt, and what it returns is what that request's answer determines.
\<close>

theorem image_prompt_defaults_to_empty:
  assumes "render prompt = Inr d" and "map_of d ''content'' = None"
  shows "posts (snd (generate_image_response c render post prompt w)) =
           posts w @ [image_request c (PStr '''')]
       \<and> getitem_key (json (image_request c (PStr ''''))) ''prompt'' = Inr (PStr '''')
       \<and> generate_image_response c render post prompt w =
           (case bind_exc (post (image_request c (PStr ''''))) read_image of
              Inr i \<Rightarrow> (Inr i, w\<lparr>posts := posts w @ [image_request c (PStr '''')]\<rparr>)
            | Inl e \<Rightarrow>
                (if is_Exception e
                 then (Inr \<lparr>ImageCompletionData.status = ERROR, image64 = PNone,
                            status_text = PStr (exc_str e)\<rparr>,
                       w\<lparr>posts := posts w @ [image_request c (PStr '''')],
                         logged := logged w @ [e]\<rparr>)
                 else (Inl e, w\<lparr>posts := posts w @ [image_request c (PStr '''')]\<rparr>)))"
  using assms
  by (simp add: generate_image_response_def try_image_def dict_get_def Let_def
      image_request_def split: sum.splits)

text \<open>
  C10 on a message that renders to a role only: the request is posted with prompt
  \<^verbatim>\<open>''\<close>, and the image of the answer comes back.
\<close>

theorem image_prompt_defaults_to_empty_witness:
  "render_dict message_without_content = Inr message_without_content
   \<and> map_of message_without_content ''content'' = None
   \<and> generate_image_response example_constants render_dict
        (answer_with \<lparr>status_code = 200, json_body = Inr (PDict one_image_body)\<rparr>)
        message_without_content quiet
      = (Inr \<lparr>ImageCompletionData.status = OK, image64 = PStr ''aGk='', status_text = PNone\<rparr>,
         \<lparr>posts = [image_request example_constants (PStr '''')], logged = []\<rparr>)"
proof -
  have h1: "render_dict message_without_content = Inr message_without_content"
    by (simp add: render_dict_def)
  have h2: "map_of message_without_content ''content'' = None"
    by (simp add: message_without_content_def)
  show ?thesis
    using h1 h2
      image_prompt_defaults_to_empty [where render = render_dict
        and prompt = message_without_content and d = message_without_content
        and c = example_constants and w = quiet
        and post = "answer_with \<lparr>status_code = 200, json_body = Inr (PDict one_image_body)\<rparr>",
        OF h1 h2]
    by (simp add: answer_with_def read_image_def bind_exc_def quiet_def one_image_body_def)
qed

section \<open>The renderers\<close>

text \<open>
  C5. On a CompletionData with status TOO_LONG, \<open>process_response\<close> calls
  \<^verbatim>\<open>close_thread\<close> on the thread and does nothing else: it sends no content, no file
  and no embed.
\<close>

theorem process_response_too_long_closes:
  "CompletionData.status d = TOO_LONG \<Longrightarrow>
     process_response c split repr thread d = thread @ [Close_thread]"
  by (simp add: process_response_def)

text \<open>C5 on the result of a context-length error, in a thread that holds one message.\<close>

theorem process_response_too_long_closes_witness:
  "CompletionData.status
      \<lparr>CompletionData.status = TOO_LONG, reply_text = PNone,
       status_text = PDict (error_body (PStr ''context_length_exceeded''))\<rparr> = TOO_LONG
   \<and> process_response example_constants split_at_3 repr_opaque [Send_content ''hi'']
        \<lparr>CompletionData.status = TOO_LONG, reply_text = PNone,
         status_text = PDict (error_body (PStr ''context_length_exceeded''))\<rparr>
      = [Send_content ''hi'', Close_thread]"
proof -
  let ?d = "\<lparr>CompletionData.status = TOO_LONG, reply_text = PNone,
             status_text = PDict (error_body (PStr ''context_length_exceeded''))\<rparr>"
  have h: "CompletionData.status ?d = TOO_LONG" by simp
  show ?thesis
    using h
      process_response_too_long_closes [where d = ?d and c = example_constants
        and split = split_at_3 and repr = repr_opaque and thread = "[Send_content ''hi'']",
        OF h]
    by simp
qed

text \<open>
  C6. On a CompletionData with status OK and a non-empty str as reply text,
  \<open>process_response\<close> passes the reply to \<^verbatim>\<open>split_into_shorter_messages\<close> and makes
  one send per chunk, in the order of the chunks: a chunk longer than
  \<^verbatim>\<open>MAX_CHARS_PER_REPLY_MSG\<close> goes as the file \<^verbatim>\<open>message.txt\<close>, every other chunk as
  plain content.
\<close>

theorem process_response_ok_sends_chunks:
  assumes "CompletionData.status d = OK" and "reply_text d = PStr s" and "s \<noteq> []"
  shows "process_response c split repr thread d =
     thread @ map (\<lambda>r. if int (length r) > MAX_CHARS_PER_REPLY_MSG c
                         then Send_file (File r ''message.txt'') else Send_content r)
                  (split (PStr s))"
  using assms by (simp add: process_response_def send_chunks_map)

text \<open>
  C6 with a threshold of 5 and a splitter that cuts after three characters: the first
  chunk is sent as text, the second, nine characters long, as a file.
\<close>

theorem process_response_ok_sends_chunks_witness:
  "CompletionData.status
      \<lparr>CompletionData.status = OK, reply_text = PStr ''abcdefghijkl'', status_text = PNone\<rparr>
     = OK
   \<and> ''abcdefghijkl'' \<noteq> []
   \<and> process_response example_constants split_at_3 repr_opaque []
        \<lparr>CompletionData.status = OK, reply_text = PStr ''abcdefghijkl'', status_text = PNone\<rparr>
      = [Send_content ''abc'', Send_file (File ''defghijkl'' ''message.txt'')]"
proof -
  let ?d = "\<lparr>CompletionData.status = OK, reply_text = PStr ''abcdefghijkl'',
             status_text = PNone\<rparr>"
  have h1: "CompletionData.status ?d = OK" by simp
  have h2: "reply_text ?d = PStr ''abcdefghijkl''" by simp
  have h3: "''abcdefghijkl'' \<noteq> []" by simp
  show ?thesis
    using h1 h3
      process_response_ok_sends_chunks [where d = ?d and c = example_constants
        and split = split_at_3 and repr = repr_opaque and thread = "[]", OF h1 h2 h3]
    by (simp add: split_at_3_def example_constants_def)
qed

text \<open>
  C7. On an ImageCompletionData whose status is not OK, \<open>process_image_response\<close> sends
  one embed, whose description is \<^verbatim>\<open>**Error** - \<close> followed by the status text, and
  nothing else; TOO_LONG has no branch of its own, so the same data with status TOO_LONG
  and with status ERROR is rendered the same way, and the channel is never closed.
\<close>

theorem process_image_response_not_ok:
  assumes "ImageCompletionData.status d \<noteq> OK"
  shows "process_image_response discord_image repr channel d =
           channel @ [Send_embed \<lparr>description =
                                    ''**Error** - ''
                                      @ py_str repr (ImageCompletionData.status_text d),
                                  color = Yellow\<rparr>]
       \<and> process_image_response discord_image repr channel
           (d\<lparr>ImageCompletionData.status := TOO_LONG\<rparr>)
         = process_image_response discord_image repr channel
             (d\<lparr>ImageCompletionData.status := ERROR\<rparr>)"
  using assms by (simp add: process_image_response_def error_notice_def)

text \<open>C7 on a TOO_LONG result that carries a message as status text.\<close>

theorem process_image_response_not_ok_witness:
  "ImageCompletionData.status
      \<lparr>ImageCompletionData.status = TOO_LONG, image64 = PNone,
       status_text = PStr ''prompt too long''\<rparr> \<noteq> OK
   \<and> process_image_response image_png repr_opaque []
        \<lparr>ImageCompletionData.status = TOO_LONG, image64 = PNone,
         status_text = PStr ''prompt too long''\<rparr>
      = [Send_embed \<lparr>description = ''**Error** - prompt too long'', color = Yellow\<rparr>]"
proof -
  let ?d = "\<lparr>ImageCompletionData.status = TOO_LONG, image64 = PNone,
             status_text = PStr ''prompt too long''\<rparr>"
  have h: "ImageCompletionData.status ?d \<noteq> OK" by simp
  show ?thesis
    using h
      process_image_response_not_ok [where d = ?d and discord_image = image_png
        and repr = repr_opaque and channel = "[]", OF h]
    by simp
qed

text \<open>
  C8. On a result with status OK whose payload is empty (the empty string, or any other
  value that \<^verbatim>\<open>not\<close> takes for false, \<^verbatim>\<open>None\<close> among them), the text renderer and the
  image renderer send the same single embed, \<^verbatim>\<open>**Invalid response** - empty response\<close>
  in yellow, and nothing else.
\<close>

theorem empty_payload_invalid_response:
  "(CompletionData.status d = OK \<and> \<not> py_truthy (reply_text d) \<longrightarrow>
      process_response c split repr thread d =
        thread @ [Send_embed \<lparr>description = ''**Invalid response** - empty response'',
                               color = Yellow\<rparr>])
   \<and> (ImageCompletionData.status i = OK \<and> \<not> py_truthy (image64 i) \<longrightarrow>
      process_image_response discord_image repr channel i =
        channel @ [Send_embed \<lparr>description = ''**Invalid response** - empty response'',
                                color = Yellow\<rparr>])"
  by (simp add: process_response_def process_image_response_def invalid_response_notice_def)

text \<open>C8 on an empty reply text and on an empty image payload.\<close>

theorem empty_payload_invalid_response_witness:
  "\<not> py_truthy (PStr '''')
   \<and> process_response example_constants split_at_3 repr_opaque []
        \<lparr>CompletionData.status = OK, reply_text = PStr '''', status_text = PNone\<rparr>
      = [Send_embed \<lparr>description = ''**Invalid response** - empty response'',
                      color = Yellow\<rparr>]
   \<and> process_image_response image_png repr_opaque []
        \<lparr>ImageCompletionData.status = OK, image64 = PStr '''', status_text = PNone\<rparr>
      = [Send_embed \<lparr>description = ''**Invalid response** - empty response'',
                      color = Yellow\<rparr>]"
proof -
  let ?d = "\<lparr>CompletionData.status = OK, reply_text = PStr '''', status_text = PNone\<rparr>"
  let ?i = "\<lparr>ImageCompletionData.status = OK, image64 = PStr '''', status_text = PNone\<rparr>"
  have h: "\<not> py_truthy (PStr '''')" by simp
  show ?thesis
    using h
      empty_payload_invalid_response [where d = ?d and i = ?i and c = example_constants
        and split = split_at_3 and repr = repr_opaque and thread = "[]"
        and discord_image = image_png and channel = "[]"]
    by simp
qed

text \<open>
  C9. On an ImageCompletionData with status OK and a non-empty str as payload,
  \<open>process_image_response\<close> passes the payload to \<^verbatim>\<open>discord_image\<close> and sends the
  file it returns: one send, of one file, and nothing else.
\<close>

theorem process_image_response_ok_one_file:
  assumes "ImageCompletionData.status i = OK" and "image64 i = PStr s" and "s \<noteq> []"
  shows "process_image_response discord_image repr channel i =
           channel @ [Send_file (discord_image (PStr s))]"
  using assms by (simp add: process_image_response_def)

text \<open>C9 on a four-character payload.\<close>

theorem process_image_response_ok_one_file_witness:
  "ImageCompletionData.status
      \<lparr>ImageCompletionData.status = OK, image64 = PStr ''aGk='', status_text = PNone\<rparr> = OK
   \<and> ''aGk='' \<noteq> []
   \<and> process_image_response image_png repr_opaque []
        \<lparr>ImageCompletionData.status = OK, image64 = PStr ''aGk='', status_text = PNone\<rparr>
      = [Send_file (File ''aGk='' ''image.png'')]"
proof -
  let ?i = "\<lparr>ImageCompletionData.status = OK, image64 = PStr ''aGk='', status_text = PNone\<rparr>"
  have h1: "ImageCompletionData.status ?i = OK" by simp
  have h2: "image64 ?i = PStr ''aGk=''" by simp
  have h3: "''aGk='' \<noteq> []" by simp
  show ?thesis
    using h1 h3
      process_image_response_ok_one_file [where i = ?i and discord_image = image_png
        and repr = repr_opaque and channel = "[]", OF h1 h2 h3]
    by (simp add: image_png_def)
qed

end
